theory Spec2Isabelle
  imports Main "HOL-Library.AList"
begin

section \<open>JavaScript values, objects and the store\<close>

text \<open>
  The values the runner handles. An array is always a list of task names (the only
  arrays of the data model are the alias entries); a mapping lives in the store and is
  denoted by a reference.
\<close>

datatype jsval =
    JUndefined
  | JNull
  | JBool bool
  | JNum int
  | JStr string
  | JArr "string list"
  | JRef nat

text \<open>What \<^verbatim>\<open>if (v)\<close> and \<^verbatim>\<open>!v\<close> test.\<close>

fun truthy :: "jsval \<Rightarrow> bool" where
  "truthy JUndefined = False"
| "truthy JNull = False"
| "truthy (JBool b) = b"
| "truthy (JNum n) = (n \<noteq> 0)"
| "truthy (JStr s) = (s \<noteq> [])"
| "truthy (JArr ts) = True"
| "truthy (JRef a) = True"

text \<open>
  A plain object: its own enumerable properties in insertion order. Reading a missing
  key yields \<^verbatim>\<open>undefined\<close>; writing replaces the value in place or appends the key.
  Property reads see own properties only: the names every object inherits from its
  prototype are not modelled.
\<close>

type_synonym jsobject = "(string \<times> jsval) list"


definition obj_get :: "jsobject \<Rightarrow> string \<Rightarrow> jsval" where
  "obj_get ob k = (case map_of ob k of None \<Rightarrow> JUndefined | Some v \<Rightarrow> v)"

definition obj_set :: "jsobject \<Rightarrow> string \<Rightarrow> jsval \<Rightarrow> jsobject" where
  "obj_set ob k v = AList.update k v ob"

text \<open>\<^verbatim>\<open>Object.assign(target, source)\<close>: every property of the source, in its order, is
  written to the target.\<close>

definition object_assign :: "jsobject \<Rightarrow> jsobject \<Rightarrow> jsobject" where
  "object_assign target source = foldl (\<lambda>t (k, v). obj_set t k v) target source"

text \<open>The conditions the code raises. The message text is a function of the payload and
  is left out; \<open>TypeError\<close> is the host's own error, \<open>TaskError\<close> a failure of a module.\<close>

datatype error =
    MrmUnknownTask string
  | MrmUnknownAlias string
  | MrmUndefinedOption "string list"
  | TypeError
  | TaskError string

text \<open>The store of mappings, the allocation counter, and the console (the lines written by
  \<^verbatim>\<open>console.log\<close> and \<^verbatim>\<open>console.warn\<close>, without colour codes). A new object never aliases
  an existing one: it is allocated at the counter.\<close>

record state =
  heap :: "nat \<Rightarrow> jsobject"
  next_ref :: nat
  console :: "string list"

definition alloc :: "jsobject \<Rightarrow> state \<Rightarrow> nat \<times> state" where
  "alloc ob st =
     (next_ref st, st\<lparr>heap := (heap st)(next_ref st := ob), next_ref := Suc (next_ref st)\<rparr>)"

definition console_log :: "string \<Rightarrow> state \<Rightarrow> state" where
  "console_log line st = st\<lparr>console := console st @ [line]\<rparr>"

text \<open>\<^verbatim>\<open>v[k]\<close> on a value: a mapping is looked up, \<^verbatim>\<open>null\<close> and \<^verbatim>\<open>undefined\<close> raise,
  a primitive or an array has no such property.\<close>

definition prop_get :: "state \<Rightarrow> jsval \<Rightarrow> string \<Rightarrow> error + jsval" where
  "prop_get st v k =
     (case v of
        JRef a \<Rightarrow> Inr (obj_get (heap st a) k)
      | JUndefined \<Rightarrow> Inl TypeError
      | JNull \<Rightarrow> Inl TypeError
      | _ \<Rightarrow> Inr JUndefined)"

text \<open>\<^verbatim>\<open>v[k] = x\<close> in strict mode: a mapping is updated in the store; anything else is not
  a mapping of the data model and is rejected.\<close>

definition prop_set :: "jsval \<Rightarrow> string \<Rightarrow> jsval \<Rightarrow> state \<Rightarrow> error + state" where
  "prop_set v k x st =
     (case v of
        JRef a \<Rightarrow> Inr (st\<lparr>heap := (heap st)(a := obj_set (heap st a) k x)\<rparr>)
      | _ \<Rightarrow> Inl TypeError)"

text \<open>lodash \<^verbatim>\<open>get(object, key, defaultValue)\<close> for a plain key: the default replaces
  an \<^verbatim>\<open>undefined\<close> result.\<close>

definition lodash_get :: "state \<Rightarrow> nat \<Rightarrow> string \<Rightarrow> jsval \<Rightarrow> jsval" where
  "lodash_get st object k defaultValue =
     (let v = obj_get (heap st object) k in if v = JUndefined then defaultValue else v)"

text \<open>\<^verbatim>\<open>xs.forEach(f)\<close> for an effectful \<open>f\<close>: a failure ends the iteration.\<close>

fun forEach :: "'a list \<Rightarrow> ('a \<Rightarrow> state \<Rightarrow> error + state) \<Rightarrow> state \<Rightarrow> error + state" where
  "forEach [] f st = Inr st"
| "forEach (x # xs) f st = (case f x st of Inl err \<Rightarrow> Inl err | Inr st' \<Rightarrow> forEach xs f st')"

section \<open>The Config Accessor\<close>

text \<open>The accessor is a closure over the variable \<^verbatim>\<open>options\<close>; the record holds that
  variable.\<close>

record config_getter =
  options_var :: nat

definition getConfigGetter :: "nat \<Rightarrow> config_getter" where
  "getConfigGetter options = \<lparr>options_var = options\<rparr>"

definition config :: "config_getter \<Rightarrow> string \<Rightarrow> jsval \<Rightarrow> state \<Rightarrow> jsval \<times> state" where
  "config g prop defaultValue st =
     (let st1 = console_log
        ''Warning: calling config as a function is deprecated. Use config.values() instead'' st
      in (lodash_get st1 (options_var g) prop defaultValue, st1))"




section \<open>The host environment\<close>

text \<open>A loaded module: its properties, and its entry point when it is callable.\<close>

record jsmodule =
  props :: jsobject
  entry :: "(config_getter \<Rightarrow> jsobject \<Rightarrow> state \<Rightarrow> error + state) option"

text \<open>The file system, the path library, the module resolver, the glob library and the
  module loader are parameters of the program.\<close>

record env =
  existsSync :: "string \<Rightarrow> bool"
  path_resolve :: "string \<Rightarrow> string \<Rightarrow> string"
  path_basename :: "string \<Rightarrow> string"
  path_dirname :: "string \<Rightarrow> string"
  requireg_resolve :: "string \<Rightarrow> jsval"
  glob_sync :: "string \<Rightarrow> string list"
  node_require :: "string \<Rightarrow> error + jsmodule"

section \<open>Path and module resolution\<close>

fun firstResult :: "jsval list \<Rightarrow> (jsval \<Rightarrow> jsval) \<Rightarrow> jsval" where
  "firstResult [] fn = JUndefined"
| "firstResult (item # items) fn =
     (if \<not> truthy item then firstResult items fn
      else (let result = fn item in
            if truthy result then result else firstResult items fn))"

definition tryFile :: "env \<Rightarrow> string list \<Rightarrow> string \<Rightarrow> jsval" where
  "tryFile e directories filename =
     firstResult (map JStr directories)
       (\<lambda>item. case item of
          JStr dir \<Rightarrow>
            (let filepath = path_resolve e dir filename
             in if existsSync e filepath then JStr filepath else JUndefined)
        | _ \<Rightarrow> JUndefined)"

definition tryResolve :: "env \<Rightarrow> jsval list \<Rightarrow> jsval" where
  "tryResolve e names =
     firstResult names (\<lambda>item. case item of JStr s \<Rightarrow> requireg_resolve e s | _ \<Rightarrow> JUndefined)"

section \<open>The Config Builder\<close>






section \<open>The Task/Alias Runner\<close>

text \<open>\<^verbatim>\<open>get(options, 'aliases', {})\<close>: the default object is built before the call.\<close>

definition getAllAliases :: "nat \<Rightarrow> state \<Rightarrow> jsval \<times> state" where
  "getAllAliases options st =
     (let (d, st1) = alloc [] st in (lodash_get st1 options ''aliases'' (JRef d), st1))"

definition runTask ::
  "env \<Rightarrow> string \<Rightarrow> string list \<Rightarrow> nat \<Rightarrow> jsobject \<Rightarrow> state \<Rightarrow> error + state" where
  "runTask e taskName directories options argv st =
     (let modulePath = tryResolve e
            [tryFile e directories (taskName @ ''/index.js''),
             JStr (''mrm-task-'' @ taskName),
             JStr taskName]
      in if \<not> truthy modulePath then Inl (MrmUnknownTask taskName)
         else (let st1 = console_log (''Running '' @ taskName @ ''...'') st
               in case modulePath of
                    JStr p \<Rightarrow>
                      (case node_require e p of
                         Inl err \<Rightarrow> Inl err
                       | Inr m \<Rightarrow>
                           (case entry m of
                              None \<Rightarrow> Inl TypeError
                            | Some f \<Rightarrow> f (getConfigGetter options) argv st1))
                  | _ \<Rightarrow> Inl TypeError))"

definition runAlias ::
  "env \<Rightarrow> string \<Rightarrow> string list \<Rightarrow> nat \<Rightarrow> jsobject \<Rightarrow> state \<Rightarrow> error + state" where
  "runAlias e aliasName directories options argv st =
     (let (aliases, st1) = getAllAliases options st
      in case prop_get st1 aliases aliasName of
           Inl err \<Rightarrow> Inl err
         | Inr tasks \<Rightarrow>
             if \<not> truthy tasks then Inl (MrmUnknownAlias aliasName)
             else (let st2 = console_log (''Running alias '' @ aliasName @ ''...'') st1
                   in case tasks of
                        JArr names \<Rightarrow>
                          forEach names (\<lambda>name. runTask e name directories options argv) st2
                      | _ \<Rightarrow> Inl TypeError))"

text \<open>\<^verbatim>\<open>run\<close> takes one name or a sequence of names.\<close>

datatype name_arg = Name string | Names "string list"

definition run_name ::
  "env \<Rightarrow> string \<Rightarrow> string list \<Rightarrow> nat \<Rightarrow> jsobject \<Rightarrow> state \<Rightarrow> error + state" where
  "run_name e name directories options argv st =
     (let (aliases, st1) = getAllAliases options st
      in case prop_get st1 aliases name of
           Inl err \<Rightarrow> Inl err
         | Inr v \<Rightarrow>
             if truthy v then runAlias e name directories options argv st1
             else runTask e name directories options argv st1)"

fun run :: "env \<Rightarrow> name_arg \<Rightarrow> string list \<Rightarrow> nat \<Rightarrow> jsobject \<Rightarrow> state \<Rightarrow> error + state" where
  "run e (Names ns) directories options argv st =
     forEach ns (\<lambda>n. run_name e n directories options argv) st"
| "run e (Name name) directories options argv st = run_name e name directories options argv st"

section \<open>Discovery\<close>

text \<open>The body of the inner loop of \<^verbatim>\<open>getAllTasks\<close>, for one file found by the glob.\<close>

definition addTask :: "env \<Rightarrow> jsval \<Rightarrow> string \<Rightarrow> state \<Rightarrow> error + state" where
  "addTask e allTasks filename st =
     (let taskName = path_basename e (path_dirname e filename)
      in case prop_get st allTasks taskName of
           Inl err \<Rightarrow> Inl err
         | Inr v \<Rightarrow>
             if \<not> truthy v then
               (case node_require e filename of
                  Inl err \<Rightarrow> Inl err
                | Inr m \<Rightarrow>
                    (let d = obj_get (props m) ''description''
                     in prop_set allTasks taskName (if truthy d then d else JStr []) st))
             else Inr st)"

definition getAllTasks :: "env \<Rightarrow> string list \<Rightarrow> nat \<Rightarrow> state \<Rightarrow> error + (jsval \<times> state)" where
  "getAllTasks e directories options st =
     (let (allTasks, st1) = getAllAliases options st
      in case forEach directories
                (\<lambda>dir. forEach (glob_sync e (dir @ ''/*/index.js'')) (addTask e allTasks)) st1 of
           Inl err \<Rightarrow> Inl err
         | Inr st2 \<Rightarrow> Inr (allTasks, st2))"

section \<open>Notions of the specification\<close>




text \<open>The three candidate module identifiers of a task, in priority order, and what it
  means for a candidate to resolve: it is a non-empty identifier for which the resolver
  has a result.\<close>

definition candidates :: "env \<Rightarrow> string \<Rightarrow> string list \<Rightarrow> jsval list" where
  "candidates e taskName directories =
     [tryFile e directories (taskName @ ''/index.js''),
      JStr (''mrm-task-'' @ taskName),
      JStr taskName]"


text \<open>The entry of a name in the alias mapping of the options (\<^verbatim>\<open>undefined\<close> when the
  options have no alias mapping), and the condition that the options and their alias
  mapping are objects of the store allocated earlier.\<close>

definition alias_lookup :: "state \<Rightarrow> nat \<Rightarrow> string \<Rightarrow> error + jsval" where
  "alias_lookup st options name =
     (case obj_get (heap st options) ''aliases'' of
        JUndefined \<Rightarrow> Inr JUndefined
      | v \<Rightarrow> prop_get st v name)"

definition wf_options :: "state \<Rightarrow> nat \<Rightarrow> bool" where
  "wf_options st options =
     (options < next_ref st \<and>
      (case obj_get (heap st options) ''aliases'' of JRef a \<Rightarrow> a < next_ref st | _ \<Rightarrow> True))"

text \<open>For discovery: the files the glob finds in the search directories, in order; the
  task name of such a file; the description a module declares, or the empty string; and
  the alias mapping of the options as a value.\<close>

definition discovered :: "env \<Rightarrow> string list \<Rightarrow> string list" where
  "discovered e directories = concat (map (\<lambda>dir. glob_sync e (dir @ ''/*/index.js'')) directories)"

definition task_name_of :: "env \<Rightarrow> string \<Rightarrow> string" where
  "task_name_of e filename = path_basename e (path_dirname e filename)"

definition description_of :: "jsmodule \<Rightarrow> jsval" where
  "description_of m = (let d = obj_get (props m) ''description'' in if truthy d then d else JStr [])"


section \<open>A concrete environment\<close>

text \<open>A small file system with a config file, three task modules in two task directories,
  and the modules the loader returns for them.\<close>

definition demo_exists :: "string \<Rightarrow> bool" where
  "demo_exists p = (p \<in> set [''/cwd/config.json'', ''/cfg/config.json'',
     ''/tasks/a/index.js'', ''/tasks/b/index.js'', ''/more/c/index.js''])"

definition demo_resolve :: "string \<Rightarrow> string \<Rightarrow> string" where
  "demo_resolve dir filename = (if dir = [] then ''/cwd'' else dir) @ ''/'' @ filename"

definition task_a :: jsmodule where
  "task_a = \<lparr>props = [(''description'', JStr ''Task A'')],
            entry = Some (\<lambda>g argv st. Inr (console_log ''a done'' st))\<rparr>"

definition task_b :: jsmodule where
  "task_b = \<lparr>props = [], entry = Some (\<lambda>g argv st. Inl (TaskError ''b failed''))\<rparr>"

definition task_c :: jsmodule where
  "task_c = \<lparr>props = [(''description'', JStr ''Task C'')],
            entry = Some (\<lambda>g argv st. Inr (console_log ''c done'' st))\<rparr>"

definition config_file :: jsmodule where
  "config_file = \<lparr>props = [(''a'', JNum 1), (''b'', JNum 1)], entry = None\<rparr>"

definition demo_require :: "string \<Rightarrow> error + jsmodule" where
  "demo_require p =
     (if p = ''/tasks/a/index.js'' then Inr task_a
      else if p = ''/tasks/b/index.js'' then Inr task_b
      else if p = ''/more/c/index.js'' then Inr task_c
      else if p = ''/cfg/config.json'' then Inr config_file
      else Inl (TaskError ''Cannot find module''))"

definition demo_env :: env where
  "demo_env = \<lparr>
     existsSync = demo_exists,
     path_resolve = demo_resolve,
     path_basename = (\<lambda>p. rev (takeWhile (\<lambda>c. c \<noteq> CHR ''/'') (rev p))),
     path_dirname = (\<lambda>p. rev (drop 1 (dropWhile (\<lambda>c. c \<noteq> CHR ''/'') (rev p)))),
     requireg_resolve = (\<lambda>s. if demo_exists s then JStr s else JUndefined),
     glob_sync = (\<lambda>pat. if pat = ''/tasks/*/index.js'' then [''/tasks/a/index.js'', ''/tasks/b/index.js'']
                         else if pat = ''/more/*/index.js'' then [''/more/c/index.js''] else []),
     node_require = demo_require\<rparr>"

text \<open>A store: the options (with three aliases, one named like a task) at 0, the alias mapping at 1, and four
  small mappings.\<close>

definition demo_heap :: "nat \<Rightarrow> jsobject" where
  "demo_heap a =
     (if a = 0 then [(''aliases'', JRef 1), (''name'', JStr ''demo'')]
      else if a = 1 then [(''setup'', JArr [''a'', ''b'', ''c'']), (''build'', JArr [''a'', ''c'']),
                          (''c'', JArr [''a''])]
      else if a = 2 then [(''b'', JNum 2)]
      else if a = 3 then [(''a'', JNum 1), (''b'', JNum 1)]
      else if a = 4 then [(''x'', JNum 1)]
      else if a = 5 then [(''x'', JUndefined)]
      else [])"

definition demo_state :: state where
  "demo_state = \<lparr>heap = demo_heap, next_ref = 6, console = []\<rparr>"

text \<open>The store after \<^verbatim>\<open>getAllTasks\<close> has run on it.\<close>

definition demo_state_listed :: state where
  "demo_state_listed =
     \<lparr>heap = demo_heap(6 := [],
             1 := [(''setup'', JArr [''a'', ''b'', ''c'']), (''build'', JArr [''a'', ''c'']),
                   (''c'', JArr [''a'']), (''a'', JStr ''Task A''), (''b'', JStr [])]),
      next_ref = 7, console = []\<rparr>"

section \<open>Objects and merging\<close>











lemma distinct_obj_set: "distinct (map fst ob) \<Longrightarrow> distinct (map fst (obj_set ob k v))"
  unfolding obj_set_def by (rule distinct_update)

lemma distinct_object_assign: "distinct (map fst t) \<Longrightarrow> distinct (map fst (object_assign t s))"
  unfolding object_assign_def
  by (induction s arbitrary: t) (auto simp: distinct_obj_set)





section \<open>First truthy result\<close>





lemma tryFile_Nil: "tryFile e [] filename = JUndefined"
  by (simp add: tryFile_def)

lemma tryFile_Cons:
  "tryFile e (dir # directories) filename =
     (if dir \<noteq> [] \<and> existsSync e (path_resolve e dir filename) \<and> path_resolve e dir filename \<noteq> []
      then JStr (path_resolve e dir filename) else tryFile e directories filename)"
  by (simp add: tryFile_def Let_def)





section \<open>The accessor and the store\<close>


section \<open>Resolving a task module\<close>




lemma runTask_modulePath:
  "runTask e taskName directories options argv st =
     (let modulePath = tryResolve e (candidates e taskName directories)
      in if \<not> truthy modulePath then Inl (MrmUnknownTask taskName)
         else (case modulePath of
                 JStr p \<Rightarrow>
                   (case node_require e p of
                      Inl err \<Rightarrow> Inl err
                    | Inr m \<Rightarrow>
                        (case entry m of
                           None \<Rightarrow> Inl TypeError
                         | Some f \<Rightarrow> f (getConfigGetter options) argv
                                      (console_log (''Running '' @ taskName @ ''...'') st)))
               | _ \<Rightarrow> Inl TypeError))"
  unfolding runTask_def candidates_def Let_def
  by (simp split: jsval.splits sum.splits option.splits)



section \<open>The alias mapping in the store\<close>

lemma forEach_append:
  "forEach (xs @ ys) f st = (case forEach xs f st of Inl err \<Rightarrow> Inl err | Inr st' \<Rightarrow> forEach ys f st')"
  by (induction xs arbitrary: st) (auto split: sum.splits)

lemma getAllAliases_snd: "snd (getAllAliases options st) = snd (alloc [] st)"
  by (simp add: getAllAliases_def alloc_def Let_def)

lemma wf_options_alloc: "wf_options st options \<Longrightarrow> wf_options (snd (alloc ob st)) options"
  by (auto simp: wf_options_def alloc_def split: jsval.splits)

lemma alias_lookup_alloc:
  "wf_options st options \<Longrightarrow> alias_lookup (snd (alloc ob st)) options name = alias_lookup st options name"
  by (auto simp: wf_options_def alias_lookup_def alloc_def prop_get_def split: jsval.splits)

lemma getAllAliases_lookup:
  assumes "wf_options st options"
  shows "prop_get (snd (getAllAliases options st)) (fst (getAllAliases options st)) name =
     alias_lookup st options name"
proof (cases "obj_get (heap st options) ''aliases'' = JUndefined")
  case True
  with assms show ?thesis
    by (simp add: getAllAliases_def alloc_def lodash_get_def wf_options_def alias_lookup_def
        prop_get_def obj_get_def)
next
  case False
  with assms show ?thesis
    by (auto simp: getAllAliases_def alloc_def lodash_get_def wf_options_def alias_lookup_def
        prop_get_def split: jsval.splits)
qed

lemma getAllAliases_lookup_alloc:
  assumes "wf_options st options"
  shows "prop_get (snd (alloc [] st)) (fst (getAllAliases options st)) name =
     alias_lookup st options name"
  using getAllAliases_lookup [OF assms] unfolding getAllAliases_snd .

lemma runAlias_lookup:
  assumes "wf_options st options"
  shows "runAlias e aliasName directories options argv st =
     (case alias_lookup st options aliasName of
        Inl err \<Rightarrow> Inl err
      | Inr tasks \<Rightarrow>
          if \<not> truthy tasks then Inl (MrmUnknownAlias aliasName)
          else (case tasks of
                  JArr names \<Rightarrow>
                    forEach names (\<lambda>name. runTask e name directories options argv)
                      (console_log (''Running alias '' @ aliasName @ ''...'') (snd (alloc [] st)))
                | _ \<Rightarrow> Inl TypeError))"
proof -
  have "runAlias e aliasName directories options argv st =
     (case prop_get (snd (getAllAliases options st)) (fst (getAllAliases options st)) aliasName of
        Inl err \<Rightarrow> Inl err
      | Inr tasks \<Rightarrow>
          if \<not> truthy tasks then Inl (MrmUnknownAlias aliasName)
          else (case tasks of
                  JArr names \<Rightarrow>
                    forEach names (\<lambda>name. runTask e name directories options argv)
                      (console_log (''Running alias '' @ aliasName @ ''...'') (snd (getAllAliases options st)))
                | _ \<Rightarrow> Inl TypeError))"
    unfolding runAlias_def Let_def by (simp add: case_prod_unfold)
  then show ?thesis unfolding getAllAliases_snd getAllAliases_lookup_alloc [OF assms] .
qed

lemma run_name_lookup:
  assumes "wf_options st options"
  shows "run_name e name directories options argv st =
     (case alias_lookup st options name of
        Inl err \<Rightarrow> Inl err
      | Inr v \<Rightarrow>
          if truthy v then runAlias e name directories options argv (snd (alloc [] st))
          else runTask e name directories options argv (snd (alloc [] st)))"
proof -
  have "run_name e name directories options argv st =
     (case prop_get (snd (getAllAliases options st)) (fst (getAllAliases options st)) name of
        Inl err \<Rightarrow> Inl err
      | Inr v \<Rightarrow>
          if truthy v then runAlias e name directories options argv (snd (getAllAliases options st))
          else runTask e name directories options argv (snd (getAllAliases options st)))"
    unfolding run_name_def Let_def by (simp add: case_prod_unfold)
  then show ?thesis unfolding getAllAliases_snd getAllAliases_lookup_alloc [OF assms] .
qed

lemma demo_runTask_a:
  "runTask demo_env ''a'' [''/tasks'', ''/more''] options argv st =
     Inr (console_log ''a done'' (console_log ''Running a...'' st))"
  by (simp add: runTask_modulePath candidates_def tryResolve_def tryFile_Cons tryFile_Nil
      demo_env_def demo_resolve_def demo_exists_def demo_require_def task_a_def)

lemma demo_runTask_b:
  "runTask demo_env ''b'' [''/tasks'', ''/more''] options argv st = Inl (TaskError ''b failed'')"
  by (simp add: runTask_modulePath candidates_def tryResolve_def tryFile_Cons tryFile_Nil
      demo_env_def demo_resolve_def demo_exists_def demo_require_def task_b_def)

lemma demo_runTask_c:
  "runTask demo_env ''c'' [''/tasks'', ''/more''] options argv st =
     Inr (console_log ''c done'' (console_log ''Running c...'' st))"
  by (simp add: runTask_modulePath candidates_def tryResolve_def tryFile_Cons tryFile_Nil
      demo_env_def demo_resolve_def demo_exists_def demo_require_def task_c_def)


lemma demo_wf_options: "wf_options demo_state 0"
  by (simp add: wf_options_def demo_state_def demo_heap_def obj_get_def)

lemma demo_alias_lookup:
  "alias_lookup demo_state 0 ''setup'' = Inr (JArr [''a'', ''b'', ''c''])"
  "alias_lookup demo_state 0 ''build'' = Inr (JArr [''a'', ''c''])"
  "alias_lookup demo_state 0 ''a'' = Inr JUndefined"
  "alias_lookup demo_state 0 ''nope'' = Inr JUndefined"
  by (simp_all add: alias_lookup_def prop_get_def demo_state_def demo_heap_def obj_get_def)




section \<open>The discovery loop\<close>


lemma forEach_concat:
  "forEach xs (\<lambda>x. forEach (g x) f) st = forEach (concat (map g xs)) f st"
  by (induction xs arbitrary: st) (auto simp: forEach_append split: sum.splits)

lemma addTask_ref:
  "addTask e (JRef r) f s =
     (if truthy (obj_get (heap s r) (task_name_of e f)) then Inr s
      else (case node_require e f of
              Inl err \<Rightarrow> Inl err
            | Inr m \<Rightarrow> Inr (s\<lparr>heap := (heap s)(r := obj_set (heap s r) (task_name_of e f)
                                                  (description_of m))\<rparr>)))"
  by (simp add: addTask_def prop_get_def prop_set_def task_name_of_def description_of_def Let_def
      split: sum.splits)

lemma addTask_cases:
  assumes "addTask e (JRef r) f s = Inr s1"
  obtains (kept) "truthy (obj_get (heap s r) (task_name_of e f))" "s1 = s"
  | (added) m where "\<not> truthy (obj_get (heap s r) (task_name_of e f))"
      "node_require e f = Inr m"
      "s1 = s\<lparr>heap := (heap s)(r := obj_set (heap s r) (task_name_of e f) (description_of m))\<rparr>"
  using assms unfolding addTask_ref by (auto split: if_splits sum.splits)

lemma addTask_frame:
  assumes "addTask e (JRef r) f s = Inr s1"
  shows "(\<forall>a. a \<noteq> r \<longrightarrow> heap s1 a = heap s a) \<and> next_ref s1 = next_ref s \<and> console s1 = console s"
  using assms by (cases rule: addTask_cases) auto




lemma forEach_addTask_frame:
  "forEach fs (addTask e (JRef r)) s = Inr s' \<Longrightarrow>
   (\<forall>a. a \<noteq> r \<longrightarrow> heap s' a = heap s a) \<and> next_ref s' = next_ref s \<and> console s' = console s"
proof (induction fs arbitrary: s)
  case Nil
  then show ?case by simp
next
  case (Cons f fs)
  from Cons.prems obtain s1 where 1: "addTask e (JRef r) f s = Inr s1"
    and 2: "forEach fs (addTask e (JRef r)) s1 = Inr s'"
    by (auto split: sum.splits)
  from addTask_frame [OF 1] Cons.IH [OF 2] show ?case by simp
qed






lemma getAllTasks_discovered:
  "getAllTasks e directories options st =
     (case forEach (discovered e directories) (addTask e (fst (getAllAliases options st)))
             (snd (alloc [] st)) of
        Inl err \<Rightarrow> Inl err
      | Inr st2 \<Rightarrow> Inr (fst (getAllAliases options st), st2))"
  unfolding getAllTasks_def discovered_def forEach_concat [symmetric]
  by (simp add: case_prod_unfold getAllAliases_snd Let_def)


lemma demo_discovered:
  "discovered demo_env [''/tasks'', ''/more''] =
     [''/tasks/a/index.js'', ''/tasks/b/index.js'', ''/more/c/index.js'']"
  by (simp add: discovered_def demo_env_def)

lemma demo_task_names:
  "task_name_of demo_env ''/tasks/a/index.js'' = ''a''"
  "task_name_of demo_env ''/tasks/b/index.js'' = ''b''"
  "task_name_of demo_env ''/more/c/index.js'' = ''c''"
  by (simp_all add: task_name_of_def demo_env_def)

lemma demo_node_require: "node_require demo_env = demo_require"
  by (simp add: demo_env_def)

lemma demo_getAllTasks:
  "getAllTasks demo_env [''/tasks'', ''/more''] 0 demo_state = Inr (JRef 1, demo_state_listed)"
  by (simp add: getAllTasks_discovered demo_discovered addTask_ref demo_task_names
      getAllAliases_def alloc_def lodash_get_def demo_state_def demo_heap_def obj_get_def
      obj_set_def description_of_def demo_node_require demo_require_def task_a_def task_b_def
      task_c_def demo_state_listed_def)

lemma demo_wf_options_listed: "wf_options demo_state_listed 0"
  by (simp add: wf_options_def demo_state_listed_def demo_heap_def obj_get_def)

section \<open>Running an alias\<close>

text \<open>
  C1: when the entry of the alias in the alias mapping is the list \<open>ts\<close> of task names,
  \<^verbatim>\<open>runAlias\<close> logs the start of the alias and runs \<^verbatim>\<open>runTask\<close> on the names of \<open>ts\<close>
  in list order, each task starting in the state the previous one left. For every
  split \<open>ts = pre @ t # post\<close> where the tasks of \<open>pre\<close> have run and left \<open>s'\<close>: if
  \<open>t\<close> fails in \<open>s'\<close>, that failure is the outcome of \<^verbatim>\<open>runAlias\<close> unchanged, whatever
  \<open>post\<close> is, so no later task is run; otherwise the tasks of \<open>post\<close> run from the
  state \<open>t\<close> left.
\<close>

theorem runAlias_tasks_in_order:
  assumes "wf_options st options"
    and "alias_lookup st options aliasName = Inr (JArr ts)"
  shows "runAlias e aliasName directories options argv st =
       forEach ts (\<lambda>t. runTask e t directories options argv)
         (console_log (''Running alias '' @ aliasName @ ''...'') (snd (alloc [] st))) \<and>
     (\<forall>pre t post s'.
        ts = pre @ t # post \<and>
        forEach pre (\<lambda>t. runTask e t directories options argv)
          (console_log (''Running alias '' @ aliasName @ ''...'') (snd (alloc [] st))) = Inr s' \<longrightarrow>
        runAlias e aliasName directories options argv st =
          (case runTask e t directories options argv s' of
             Inl err \<Rightarrow> Inl err
           | Inr s'' \<Rightarrow> forEach post (\<lambda>t. runTask e t directories options argv) s''))"
proof -
  have r: "runAlias e aliasName directories options argv st =
       forEach ts (\<lambda>t. runTask e t directories options argv)
         (console_log (''Running alias '' @ aliasName @ ''...'') (snd (alloc [] st)))"
    by (simp add: runAlias_lookup [OF assms(1)] assms(2))
  show ?thesis
  proof (intro conjI allI impI)
    show "runAlias e aliasName directories options argv st =
       forEach ts (\<lambda>t. runTask e t directories options argv)
         (console_log (''Running alias '' @ aliasName @ ''...'') (snd (alloc [] st)))"
      by (rule r)
  next
    fix pre t post s'
    assume "ts = pre @ t # post \<and>
        forEach pre (\<lambda>t. runTask e t directories options argv)
          (console_log (''Running alias '' @ aliasName @ ''...'') (snd (alloc [] st))) = Inr s'"
    then show "runAlias e aliasName directories options argv st =
          (case runTask e t directories options argv s' of
             Inl err \<Rightarrow> Inl err
           | Inr s'' \<Rightarrow> forEach post (\<lambda>t. runTask e t directories options argv) s'')"
      unfolding r by (simp add: forEach_append)
  qed
qed

text \<open>The alias \<^verbatim>\<open>setup\<close> is \<^verbatim>\<open>['a', 'b', 'c']\<close>: \<^verbatim>\<open>a\<close> runs, \<^verbatim>\<open>b\<close> fails, the failure
  is the outcome and \<^verbatim>\<open>c\<close> is not run. The alias \<^verbatim>\<open>build\<close> is \<^verbatim>\<open>['a', 'c']\<close>: the
  console shows \<^verbatim>\<open>a\<close> completed before \<^verbatim>\<open>c\<close> started.\<close>

theorem runAlias_tasks_in_order_witness:
  "wf_options demo_state 0 \<and>
   alias_lookup demo_state 0 ''setup'' = Inr (JArr [''a'', ''b'', ''c'']) \<and>
   [''a'', ''b'', ''c''] = [''a''] @ ''b'' # [''c''] \<and>
   forEach [''a''] (\<lambda>t. runTask demo_env t [''/tasks'', ''/more''] 0 [])
     (console_log ''Running alias setup...'' (snd (alloc [] demo_state))) =
     Inr (console_log ''a done'' (console_log ''Running a...''
            (console_log ''Running alias setup...'' (snd (alloc [] demo_state))))) \<and>
   runAlias demo_env ''setup'' [''/tasks'', ''/more''] 0 [] demo_state = Inl (TaskError ''b failed'') \<and>
   alias_lookup demo_state 0 ''build'' = Inr (JArr [''a'', ''c'']) \<and>
   runAlias demo_env ''build'' [''/tasks'', ''/more''] 0 [] demo_state =
     Inr \<lparr>heap = demo_heap(6 := []), next_ref = 7,
          console = [''Running alias build...'', ''Running a...'', ''a done'',
                     ''Running c...'', ''c done'']\<rparr>"
proof -
  note t1 = runAlias_tasks_in_order [OF demo_wf_options demo_alias_lookup(1),
      of demo_env "[''/tasks'', ''/more'']" "[]"]
  note t2 = runAlias_tasks_in_order [OF demo_wf_options demo_alias_lookup(2),
      of demo_env "[''/tasks'', ''/more'']" "[]"]
  have f: "forEach [''a''] (\<lambda>t. runTask demo_env t [''/tasks'', ''/more''] 0 [])
     (console_log ''Running alias setup...'' (snd (alloc [] demo_state))) =
     Inr (console_log ''a done'' (console_log ''Running a...''
            (console_log ''Running alias setup...'' (snd (alloc [] demo_state)))))"
    by (simp add: demo_runTask_a)
  have s: "[''a'', ''b'', ''c''] = [''a''] @ ''b'' # [''c'']" by simp
  have "runAlias demo_env ''setup'' [''/tasks'', ''/more''] 0 [] demo_state = Inl (TaskError ''b failed'')"
    using t1 [THEN conjunct2, rule_format, OF conjI [OF s]] f
    by (simp add: demo_runTask_b)
  moreover have "runAlias demo_env ''build'' [''/tasks'', ''/more''] 0 [] demo_state =
     Inr \<lparr>heap = demo_heap(6 := []), next_ref = 7,
          console = [''Running alias build...'', ''Running a...'', ''a done'',
                     ''Running c...'', ''c done'']\<rparr>"
    using t2 [THEN conjunct1]
    by (simp add: demo_runTask_a demo_runTask_c console_log_def alloc_def demo_state_def)
  ultimately show ?thesis using demo_wf_options demo_alias_lookup f by simp
qed

section \<open>Running a task\<close>



section \<open>The Config Builder\<close>



section \<open>Configuration from the command line\<close>



section \<open>The Config Accessor\<close>






section \<open>The Path Resolver\<close>




section \<open>The caller's options\<close>

text \<open>
  C8 says that no operation other than \<^verbatim>\<open>setDefaults\<close> changes the options mapping or
  a value reachable from it. \<^verbatim>\<open>getAllTasks\<close> does: it takes the alias mapping of the
  options by reference and writes every discovered task into it. Here the options at 0
  refer to the alias mapping at 1; after \<^verbatim>\<open>getAllTasks\<close> that mapping also holds the
  tasks \<^verbatim>\<open>a\<close> and \<^verbatim>\<open>b\<close> with their descriptions. The task \<^verbatim>\<open>a\<close> ran before the call;
  after it, \<^verbatim>\<open>run\<close> takes \<^verbatim>\<open>a\<close> for an alias and fails with a \<open>TypeError\<close>.
\<close>

theorem getAllTasks_writes_alias_mapping:
  "obj_get (heap demo_state 0) ''aliases'' = JRef 1 \<and>
   heap demo_state 1 =
     [(''setup'', JArr [''a'', ''b'', ''c'']), (''build'', JArr [''a'', ''c'']), (''c'', JArr [''a''])] \<and>
   getAllTasks demo_env [''/tasks'', ''/more''] 0 demo_state = Inr (JRef 1, demo_state_listed) \<and>
   obj_get (heap demo_state_listed 0) ''aliases'' = JRef 1 \<and>
   heap demo_state_listed 1 =
     [(''setup'', JArr [''a'', ''b'', ''c'']), (''build'', JArr [''a'', ''c'']), (''c'', JArr [''a'']),
      (''a'', JStr ''Task A''), (''b'', JStr [])] \<and>
   run demo_env (Name ''a'') [''/tasks'', ''/more''] 0 [] demo_state =
     Inr \<lparr>heap = demo_heap(6 := []), next_ref = 7, console = [''Running a...'', ''a done'']\<rparr> \<and>
   run demo_env (Name ''a'') [''/tasks'', ''/more''] 0 [] demo_state_listed = Inl TypeError"
proof -
  have "run demo_env (Name ''a'') [''/tasks'', ''/more''] 0 [] demo_state =
     Inr \<lparr>heap = demo_heap(6 := []), next_ref = 7, console = [''Running a...'', ''a done'']\<rparr>"
    by (simp add: run_name_lookup [OF demo_wf_options] demo_alias_lookup demo_runTask_a)
      (simp add: console_log_def alloc_def demo_state_def)
  moreover have l: "alias_lookup demo_state_listed 0 ''a'' = Inr (JStr ''Task A'')"
    by (simp add: alias_lookup_def prop_get_def demo_state_listed_def demo_heap_def obj_get_def)
  have "run demo_env (Name ''a'') [''/tasks'', ''/more''] 0 [] demo_state_listed = Inl TypeError"
    by (simp add: run_name_lookup [OF demo_wf_options_listed] l
        runAlias_lookup [OF wf_options_alloc [OF demo_wf_options_listed]]
        alias_lookup_alloc [OF demo_wf_options_listed])
  ultimately show ?thesis
    using demo_getAllTasks
    by (simp add: demo_state_def demo_state_listed_def demo_heap_def obj_get_def)
qed

section \<open>Discovery\<close>



section \<open>Dispatch between aliases and tasks\<close>



end
